theory Spec2Isabelle
  imports Complex_Main "HOL-Library.Multiset"
begin

section \<open>JavaScript values used by the analytics code\<close>

text \<open>
  A JavaScript \<open>number\<close> is modelled as a real number or \<open>NaN\<close>. Rounding and the two
  infinities of IEEE doubles are outside the model. \<open>NaN\<close> also stands for \<open>undefined\<close>
  where a number is expected: every operation the code applies to such a value
  (\<open>-\<close>, \<open>/\<close>, \<open>*\<close>, \<open><=\<close>, \<open>===\<close> against a number) treats \<open>undefined\<close> as it treats \<open>NaN\<close>.
\<close>

datatype number = Num real | NaN

fun num_minus :: "number \<Rightarrow> number \<Rightarrow> number" where
  "num_minus (Num a) (Num b) = Num (a - b)"
| "num_minus _ _ = NaN"

fun num_plus :: "number \<Rightarrow> number \<Rightarrow> number" where
  "num_plus (Num a) (Num b) = Num (a + b)"
| "num_plus _ _ = NaN"

fun num_times :: "number \<Rightarrow> number \<Rightarrow> number" where
  "num_times (Num a) (Num b) = Num (a * b)"
| "num_times _ _ = NaN"

text \<open>
  A quotient by zero is an infinity or \<open>NaN\<close> in JavaScript; the model has no infinities
  and gives \<open>NaN\<close>. Every division of the modelled code is guarded against a zero divisor
  (lemmas \<open>calculateTrailingReturn_Num\<close>, \<open>calculateMean_Num\<close> and the claim on
  \<open>calculateSharpeRatio\<close>), so this case is never reached.
\<close>

fun num_divide :: "number \<Rightarrow> number \<Rightarrow> number" where
  "num_divide (Num a) (Num b) = (if b = 0 then NaN else Num (a / b))"
| "num_divide _ _ = NaN"

text \<open>Comparisons with \<open>NaN\<close> are false.\<close>

fun num_le :: "number \<Rightarrow> number \<Rightarrow> bool" where
  "num_le (Num a) (Num b) = (a \<le> b)"
| "num_le _ _ = False"

fun num_less :: "number \<Rightarrow> number \<Rightarrow> bool" where
  "num_less (Num a) (Num b) = (a < b)"
| "num_less _ _ = False"

fun num_strict_eq :: "number \<Rightarrow> number \<Rightarrow> bool" where
  "num_strict_eq (Num a) (Num b) = (a = b)"
| "num_strict_eq _ _ = False"

fun isNaN :: "number \<Rightarrow> bool" where
  "isNaN NaN = True"
| "isNaN (Num _) = False"

text \<open>\<open>Math.pow(x, 2)\<close>, the only power the code takes.\<close>

definition Math_pow2 :: "number \<Rightarrow> number" where
  "Math_pow2 x = num_times x x"

text \<open>\<open>Math.floor\<close> on a number.\<close>

fun Math_floor :: "number \<Rightarrow> number" where
  "Math_floor (Num a) = Num (of_int \<lfloor>a\<rfloor>)"
| "Math_floor NaN = NaN"

text \<open>
  \<open>xs[i]\<close> for an integer index: the element, or \<open>undefined\<close> (here \<open>NaN\<close>) out of range.
\<close>

definition element_at :: "number list \<Rightarrow> int \<Rightarrow> number" where
  "element_at xs i = (if 0 \<le> i \<and> i < int (length xs) then xs ! nat i else NaN)"

text \<open>
  \<open>Array.prototype.slice\<close>: a negative index counts from the end, and both indices are
  clamped to the array.
\<close>

definition relativeIndex :: "int \<Rightarrow> int \<Rightarrow> int" where
  "relativeIndex len i = (if i < 0 then max (len + i) 0 else min i len)"

definition slice :: "'a list \<Rightarrow> int \<Rightarrow> int \<Rightarrow> 'a list" where
  "slice xs start end =
     (let len = int (length xs);
          k = relativeIndex len start;
          final = relativeIndex len end
      in take (nat (final - k)) (drop (nat k) xs))"

definition slice_from :: "'a list \<Rightarrow> int \<Rightarrow> 'a list" where
  "slice_from xs start = drop (nat (relativeIndex (int (length xs)) start)) xs"

section \<open>domain/constants\<close>

definition TRADING_DAYS_YEAR :: int where "TRADING_DAYS_YEAR = 250"
definition TRADING_DAYS_SEMESTER :: int where "TRADING_DAYS_SEMESTER = 125"
definition TRADING_DAYS_QUARTER :: int where "TRADING_DAYS_QUARTER = 63"
definition TRADING_DAYS_MONTH :: int where "TRADING_DAYS_MONTH = 21"
definition TRADING_DAYS_WEEK :: int where "TRADING_DAYS_WEEK = 5"

definition LOOKBACK_MIN :: real where "LOOKBACK_MIN = 1"
definition LOOKBACK_MAX :: real where "LOOKBACK_MAX = 1000"

section \<open>domain/finance/returns\<close>

definition calculateTrailingReturn :: "number \<Rightarrow> number \<Rightarrow> number" where
  "calculateTrailingReturn currentPrice pastPrice =
     (if num_le pastPrice (Num 0) then Num 0
      else num_times (num_divide (num_minus currentPrice pastPrice) pastPrice) (Num 100))"

text \<open>
  The loop \<open>for (let i = 1; i < prices.length; i++)\<close> pushes the return of each price
  against its predecessor; the recursion walks the same adjacent pairs in the same order.
\<close>

fun calculateReturns :: "number list \<Rightarrow> number list" where
  "calculateReturns (p # q # ps) = calculateTrailingReturn q p # calculateReturns (q # ps)"
| "calculateReturns _ = []"

section \<open>domain/finance/statistics\<close>

text \<open>
  \<open>calcStdDev\<close> is \<open>calculateStandardDeviation\<close> of the package
  \<open>@railpath/finance-toolkit\<close>. It is not part of the repository, so it is a parameter of
  the model: it returns a number, or \<open>None\<close> when it throws.
\<close>

type_synonym stddev_library = "number list \<Rightarrow> number option"

definition calculateStandardDeviation :: "stddev_library \<Rightarrow> number list \<Rightarrow> number" where
  "calculateStandardDeviation calcStdDev values =
     (if length values < 2 then Num 0
      else (case calcStdDev values of Some s \<Rightarrow> s | None \<Rightarrow> Num 0))"

definition calculateMean :: "number list \<Rightarrow> number" where
  "calculateMean values =
     (if length values = 0 then Num 0
      else num_divide (foldl num_plus (Num 0) values) (Num (real (length values))))"

definition calculateVariance :: "number list \<Rightarrow> number" where
  "calculateVariance values =
     (if length values < 2 then Num 0
      else (let mean = calculateMean values;
                squaredDiffs = map (\<lambda>val. Math_pow2 (num_minus val mean)) values
            in calculateMean squaredDiffs))"

section \<open>domain/finance/sharpeCalculator\<close>

record SharpeMetrics =
  sharpeRatio :: number
  trailingReturn :: number
  stdDev :: number
  periodDays :: int

text \<open>
  \<open>riskFreeRate\<close> is an optional parameter with default 0: \<open>None\<close> is the omitted
  argument.
\<close>

definition calculateSharpeRatio :: "number \<Rightarrow> number \<Rightarrow> number option \<Rightarrow> number" where
  "calculateSharpeRatio trailingReturn' stdDev' riskFreeRate' =
     (let riskFreeRate = (case riskFreeRate' of None \<Rightarrow> Num 0 | Some r \<Rightarrow> r)
      in if num_strict_eq stdDev' (Num 0) then Num 0
         else num_divide (num_minus trailingReturn' riskFreeRate) stdDev')"

text \<open>
  \<open>lookbackDays\<close> is an integer (the callers pass the trading-day constants or a lookback
  that \<open>validateLookback\<close> has floored); \<open>null\<close> is \<open>None\<close>.
\<close>

definition calculateSharpeForPeriod ::
  "stddev_library \<Rightarrow> number list \<Rightarrow> int \<Rightarrow> SharpeMetrics option" where
  "calculateSharpeForPeriod calcStdDev prices lookbackDays =
     (let requiredLength = lookbackDays * 2 in
      if int (length prices) < requiredLength then None
      else
        (let currentPrice = element_at prices (int (length prices) - 1);
             pastPrice = element_at prices (int (length prices) - 1 - lookbackDays);
             trailingReturn' = calculateTrailingReturn currentPrice pastPrice;
             relevantPrices = slice_from prices (- (lookbackDays + 1));
             returns = calculateReturns relevantPrices;
             stdDev' = calculateStandardDeviation calcStdDev returns;
             sharpeRatio' = calculateSharpeRatio trailingReturn' stdDev' None
         in Some \<lparr>sharpeRatio = sharpeRatio',
                   trailingReturn = trailingReturn',
                   stdDev = stdDev',
                   periodDays = lookbackDays\<rparr>))"

text \<open>
  \<open>StockPrice\<close> (domain/stock/transformer), \<open>HistoricalData\<close> (the DTO) and
  \<open>PriceWithSharpe\<close> have the same six fields; \<open>PriceWithSharpe\<close> adds three optional
  metric fields, where \<open>None\<close> is an absent field. A date string is represented by the
  epoch time that \<open>new Date(date).getTime()\<close> reads from it, the only use the modelled
  code makes of it; the field \<open>open\<close> is named \<open>open_price\<close>.
\<close>

record StockPrice =
  date :: int
  close :: number
  open_price :: number
  high :: number
  low :: number
  volume :: number

record PriceWithSharpe = StockPrice +
  sharpeRatio1Y :: "number option"
  trailingReturn1Y :: "number option"
  stdDev1Y :: "number option"

text \<open>
  \<open>historicalData.map((dataPoint, index) => ...)\<close> visits each point with its index;
  \<open>{ ...dataPoint }\<close> is a copy of the point with every field it has.
\<close>

definition enhanceWithSharpeMetrics ::
  "stddev_library \<Rightarrow> PriceWithSharpe list \<Rightarrow> int \<Rightarrow> PriceWithSharpe list" where
  "enhanceWithSharpeMetrics calcStdDev historicalData lookback =
     (let prices = map close historicalData;
          requiredLength = lookback * 2
      in map (\<lambda>(dataPoint, index).
                if int index < requiredLength - 1 then dataPoint
                else
                  (let pricesUpToNow = slice prices 0 (int index + 1) in
                   case calculateSharpeForPeriod calcStdDev pricesUpToNow lookback of
                     None \<Rightarrow> dataPoint
                   | Some metrics \<Rightarrow>
                       dataPoint\<lparr>sharpeRatio1Y := Some (sharpeRatio metrics),
                                 trailingReturn1Y := Some (trailingReturn metrics),
                                 stdDev1Y := Some (stdDev metrics)\<rparr>))
             (zip historicalData [0..<length historicalData]))"

record SharpeRatioData =
  ticker :: string
  yesterday :: "SharpeMetrics option"
  lastWeek :: "SharpeMetrics option"
  lastMonth :: "SharpeMetrics option"
  lastQuarter :: "SharpeMetrics option"
  lastSemester :: "SharpeMetrics option"
  lastYear :: "SharpeMetrics option"

definition calculateMultiPeriodSharpe ::
  "stddev_library \<Rightarrow> number list \<Rightarrow> string \<Rightarrow> SharpeRatioData" where
  "calculateMultiPeriodSharpe calcStdDev prices ticker' =
     \<lparr>ticker = ticker',
      yesterday = (if 2 \<le> length prices then calculateSharpeForPeriod calcStdDev prices 1
                   else None),
      lastWeek = calculateSharpeForPeriod calcStdDev prices TRADING_DAYS_WEEK,
      lastMonth = calculateSharpeForPeriod calcStdDev prices TRADING_DAYS_MONTH,
      lastQuarter = calculateSharpeForPeriod calcStdDev prices TRADING_DAYS_QUARTER,
      lastSemester = calculateSharpeForPeriod calcStdDev prices TRADING_DAYS_SEMESTER,
      lastYear = calculateSharpeForPeriod calcStdDev prices TRADING_DAYS_YEAR\<rparr>"

section \<open>domain/stock/transformer\<close>

text \<open>
  \<open>[...data].sort(compare)\<close> sorts a copy, and the sort is stable: an element goes
  before another when \<open>compare\<close> is negative, and elements that compare equal keep their
  order. Insertion from the right end into the sorted rest computes that order.
\<close>

fun insert_by :: "('a \<Rightarrow> 'a \<Rightarrow> int) \<Rightarrow> 'a \<Rightarrow> 'a list \<Rightarrow> 'a list" where
  "insert_by compare x [] = [x]"
| "insert_by compare x (y # ys) =
     (if compare x y \<le> 0 then x # y # ys else y # insert_by compare x ys)"

definition sort_by :: "('a \<Rightarrow> 'a \<Rightarrow> int) \<Rightarrow> 'a list \<Rightarrow> 'a list" where
  "sort_by compare xs = foldr (insert_by compare) xs []"

definition sortChronological :: "StockPrice list \<Rightarrow> StockPrice list" where
  "sortChronological data' = sort_by (\<lambda>a b. date a - date b) data'"

definition sortReverseChronological :: "StockPrice list \<Rightarrow> StockPrice list" where
  "sortReverseChronological data' = sort_by (\<lambda>a b. date b - date a) data'"

definition filterValidPrices :: "StockPrice list \<Rightarrow> StockPrice list" where
  "filterValidPrices data' =
     filter (\<lambda>price. num_less (Num 0) (close price) \<and>
                      num_less (Num 0) (open_price price) \<and>
                      num_le (Num 0) (volume price) \<and>
                      \<not> isNaN (close price) \<and>
                      \<not> isNaN (open_price price)) data'"

definition extractClosingPrices :: "StockPrice list \<Rightarrow> number list" where
  "extractClosingPrices data' = map close data'"

fun isChronological :: "StockPrice list \<Rightarrow> bool" where
  "isChronological (p # q # ps) = (if date q < date p then False else isChronological (q # ps))"
| "isChronological _ = True"

section \<open>services/stockData/stockDataService\<close>

record StockDataResult =
  ticker :: string
  historicalData :: "StockPrice list"
  daysCount :: nat
  error :: "string option"

text \<open>
  \<open>fetchSingleStock\<close> awaits the bars of \<open>fetchHistoricalData(ticker)\<close>, the upstream
  price source; they are the argument \<open>fetched\<close>. The rest is the body of \<open>fetchFn\<close>.
  With a cache, \<open>getCached\<close> returns what \<open>fetchFn\<close> returned, now or on an earlier
  call for the same key, so the result has the same form.
\<close>

definition fetchSingleStock :: "string \<Rightarrow> StockPrice list \<Rightarrow> StockDataResult" where
  "fetchSingleStock ticker' fetched =
     (if length fetched = 0 then
        \<lparr>StockDataResult.ticker = ticker',
         historicalData = [],
         daysCount = 0,
         error = Some (''No data available for '' @ ticker')\<rparr>
      else
        (let stockPrices = map (\<lambda>d. \<lparr>date = date d, close = close d,
                                        open_price = open_price d, high = high d,
                                        low = low d, volume = volume d\<rparr>) fetched;
             validPrices = filterValidPrices stockPrices;
             sortedPrices = sortReverseChronological validPrices
         in \<lparr>StockDataResult.ticker = ticker',
             historicalData = sortedPrices,
             daysCount = length sortedPrices,
             error = None\<rparr>))"

section \<open>app/api/cron: the hand-over to the Sharpe calculator\<close>

text \<open>
  For each fetched result with data, the cron handler sorts the series with
  \<open>sortChronological\<close>, extracts the closing prices and passes them to
  \<open>calculateMultiPeriodSharpe\<close>.
\<close>

definition chronologicalData :: "StockDataResult \<Rightarrow> StockPrice list" where
  "chronologicalData stockResult = sortChronological (historicalData stockResult)"

section \<open>domain/stock/validator\<close>

text \<open>
  The argument of \<open>validateLookback\<close> is declared a number and checked at run time with
  \<open>typeof\<close>: \<open>JSOther\<close> is any value that is not a number.
\<close>

datatype js_value = JSNumber number | JSOther

record ValidationResult =
  valid :: bool
  data :: "number option"
  error :: "string option"

definition validateLookback :: "js_value \<Rightarrow> ValidationResult" where
  "validateLookback lookback =
     (case lookback of
        JSOther \<Rightarrow>
          \<lparr>valid = False, data = None,
           ValidationResult.error = Some ''Lookback must be a number''\<rparr>
      | JSNumber n \<Rightarrow>
          if isNaN n then
            \<lparr>valid = False, data = None,
             ValidationResult.error = Some ''Lookback must be a number''\<rparr>
          else if num_less n (Num LOOKBACK_MIN) then
            \<lparr>valid = False, data = None,
             ValidationResult.error = Some ''Lookback must be at least 1''\<rparr>
          else if num_less (Num LOOKBACK_MAX) n then
            \<lparr>valid = False, data = None,
             ValidationResult.error = Some ''Lookback cannot exceed 1000''\<rparr>
          else
            \<lparr>valid = True, data = Some (Math_floor n),
             ValidationResult.error = None\<rparr>)"

section \<open>Returns, slices and statistics\<close>

lemma calculateTrailingReturn_Num:
  "calculateTrailingReturn (Num c) (Num p) =
     (if p \<le> 0 then Num 0 else Num ((c - p) / p * 100))"
  by (simp add: calculateTrailingReturn_def)

lemma calculateReturns_length: "length (calculateReturns ps) = length ps - 1"
  by (induction ps rule: calculateReturns.induct) auto

lemma calculateReturns_nth:
  "i < length ps - 1 \<Longrightarrow>
     calculateReturns ps ! i = calculateTrailingReturn (ps ! Suc i) (ps ! i)"
proof (induction ps arbitrary: i rule: calculateReturns.induct)
  case (1 p q ps)
  then show ?case by (cases i) auto
qed auto

lemma calculateReturns_drop_eq:
  "k \<le> length ps \<Longrightarrow> calculateReturns (drop k ps) =
     map (\<lambda>i. calculateTrailingReturn (ps ! Suc i) (ps ! i)) [k..<length ps - 1]"
  by (rule nth_equalityI) (auto simp: calculateReturns_length calculateReturns_nth)

lemma slice_from_last:
  "0 \<le> L \<Longrightarrow> slice_from xs (- (L + 1)) = drop (length xs - (nat L + 1)) xs"
  by (auto simp: slice_from_def relativeIndex_def max_def intro!: arg_cong2[where f=drop])

lemma slice_prefix:
  "i < length xs \<Longrightarrow> slice xs 0 (int i + 1) = take (Suc i) xs"
  by (auto simp: slice_def relativeIndex_def Let_def min_def intro!: arg_cong2[where f=take])

text \<open>
  The guards of the statistics functions, and \<open>calculateVariance\<close> on numbers: the mean
  of the squared deviations from the mean, a division by the number of values.
\<close>

lemma calculateStandardDeviation_short:
  "length values < 2 \<Longrightarrow> calculateStandardDeviation calcStdDev values = Num 0"
  by (simp add: calculateStandardDeviation_def)

lemma calculateStandardDeviation_throws:
  "calcStdDev values = None \<Longrightarrow> calculateStandardDeviation calcStdDev values = Num 0"
  by (simp add: calculateStandardDeviation_def)

lemma calculateStandardDeviation_library:
  "2 \<le> length values \<Longrightarrow> calcStdDev values = Some s \<Longrightarrow>
     calculateStandardDeviation calcStdDev values = s"
  by (simp add: calculateStandardDeviation_def)

lemma foldl_num_plus: "foldl num_plus (Num a) (map Num xs) = Num (a + sum_list xs)"
  by (induction xs arbitrary: a) (simp_all add: add.assoc)

lemma calculateMean_Num:
  "calculateMean (map Num xs) = (if xs = [] then Num 0 else Num (sum_list xs / real (length xs)))"
  by (simp add: calculateMean_def foldl_num_plus)

lemma calculateVariance_short: "length values < 2 \<Longrightarrow> calculateVariance values = Num 0"
  by (simp add: calculateVariance_def)

lemma calculateVariance_population:
  assumes "2 \<le> length xs"
  shows "calculateVariance (map Num xs) =
           Num ((\<Sum>x\<leftarrow>xs. (x - sum_list xs / real (length xs))\<^sup>2) / real (length xs))"
proof -
  from assms have ne: "xs \<noteq> []" by auto
  have sq: "map (\<lambda>val. Math_pow2 (num_minus val (Num (sum_list xs / real (length xs))))) (map Num xs)
          = map Num (map (\<lambda>x. (x - sum_list xs / real (length xs))\<^sup>2) xs)"
    by (simp add: Math_pow2_def power2_eq_square)
  from assms ne show ?thesis
    unfolding calculateVariance_def Let_def calculateMean_Num [of xs]
    by (simp add: sq calculateMean_Num del: map_map)
qed

section \<open>The Sharpe calculator\<close>

text \<open>
  Claim C1. For every lookback \<open>L \<ge> 1\<close> and every price series,
  \<open>calculateSharpeForPeriod\<close> returns \<open>null\<close> exactly when the series has fewer than
  \<open>2 * L\<close> prices; with at least \<open>2 * L\<close> prices it returns a metrics record whose
  \<open>periodDays\<close> is \<open>L\<close>. This holds whatever the standard-deviation library does,
  including when it throws.
\<close>

theorem calculateSharpeForPeriod_null_iff:
  assumes "1 \<le> L"
  shows "(calculateSharpeForPeriod calcStdDev prices L = None
            \<longleftrightarrow> int (length prices) < 2 * L)
       \<and> (2 * L \<le> int (length prices) \<longrightarrow>
            (\<exists>m. calculateSharpeForPeriod calcStdDev prices L = Some m \<and> periodDays m = L))"
  by (simp add: calculateSharpeForPeriod_def Let_def)

theorem calculateSharpeForPeriod_null_iff_witness:
  "(1::int) \<le> 5
     \<and> calculateSharpeForPeriod (\<lambda>values. None) (replicate 9 (Num 100)) 5 = None
     \<and> (\<exists>m. calculateSharpeForPeriod (\<lambda>values. None) (replicate 10 (Num 100)) 5 = Some m
              \<and> periodDays m = 5)"
  using calculateSharpeForPeriod_null_iff [of 5 "\<lambda>values. None" "replicate 9 (Num 100)"]
        calculateSharpeForPeriod_null_iff [of 5 "\<lambda>values. None" "replicate 10 (Num 100)"]
  by simp

text \<open>
  Claim C2. Whenever \<open>calculateSharpeForPeriod\<close> returns a record for a lookback
  \<open>L \<ge> 0\<close>, its \<open>trailingReturn\<close> is the trailing return of the most recent price
  against the price \<open>L\<close> positions before it (both reads are inside a non-empty
  series), and its \<open>stdDev\<close> is the standard deviation of the one-step returns of the
  last \<open>L + 1\<close> prices: the \<open>L\<close> returns of each of those prices against its
  predecessor, not \<open>L\<close>-step returns.
\<close>

theorem calculateSharpeForPeriod_metrics:
  assumes "calculateSharpeForPeriod calcStdDev prices L = Some m"
    and "0 \<le> L"
  shows "trailingReturn m =
           calculateTrailingReturn (element_at prices (int (length prices) - 1))
                                   (element_at prices (int (length prices) - 1 - L))
       \<and> (prices \<noteq> [] \<longrightarrow>
            nat L < length prices
          \<and> element_at prices (int (length prices) - 1) = last prices
          \<and> element_at prices (int (length prices) - 1 - L) = prices ! (length prices - 1 - nat L))
       \<and> stdDev m =
           calculateStandardDeviation calcStdDev
             (calculateReturns (drop (length prices - (nat L + 1)) prices))
       \<and> calculateReturns (drop (length prices - (nat L + 1)) prices) =
           map (\<lambda>i. calculateTrailingReturn (prices ! Suc i) (prices ! i))
               [length prices - (nat L + 1)..<length prices - 1]
       \<and> length (calculateReturns (drop (length prices - (nat L + 1)) prices)) = nat L"
proof -
  from assms have len: "2 * L \<le> int (length prices)"
    by (auto simp: calculateSharpeForPeriod_def Let_def split: if_splits)
  from assms have m: "m = \<lparr>sharpeRatio = calculateSharpeRatio
          (calculateTrailingReturn (element_at prices (int (length prices) - 1))
             (element_at prices (int (length prices) - 1 - L)))
          (calculateStandardDeviation calcStdDev (calculateReturns (slice_from prices (- (L + 1))))) None,
       trailingReturn = calculateTrailingReturn (element_at prices (int (length prices) - 1))
             (element_at prices (int (length prices) - 1 - L)),
       stdDev = calculateStandardDeviation calcStdDev (calculateReturns (slice_from prices (- (L + 1)))),
       periodDays = L\<rparr>"
    by (auto simp: calculateSharpeForPeriod_def Let_def split: if_splits)
  have 1: "trailingReturn m =
           calculateTrailingReturn (element_at prices (int (length prices) - 1))
                                   (element_at prices (int (length prices) - 1 - L))"
    by (simp add: m)
  have 2: "prices \<noteq> [] \<longrightarrow>
            nat L < length prices
          \<and> element_at prices (int (length prices) - 1) = last prices
          \<and> element_at prices (int (length prices) - 1 - L) = prices ! (length prices - 1 - nat L)"
  proof
    assume ne: "prices \<noteq> []"
    then have pos: "0 < length prices" by simp
    with len assms(2) have lt: "nat L < length prices" by linarith
    have a: "element_at prices (int (length prices) - 1) = last prices"
      using ne pos by (simp add: element_at_def last_conv_nth nat_diff_distrib')
    have "nat (int (length prices) - 1 - L) = length prices - 1 - nat L"
      using lt assms(2) by linarith
    moreover have "L < int (length prices)"
      using lt assms(2) by linarith
    ultimately have b: "element_at prices (int (length prices) - 1 - L) = prices ! (length prices - 1 - nat L)"
      using assms(2) by (simp add: element_at_def)
    from lt a b show "nat L < length prices
          \<and> element_at prices (int (length prices) - 1) = last prices
          \<and> element_at prices (int (length prices) - 1 - L) = prices ! (length prices - 1 - nat L)"
      by simp
  qed
  have 3: "stdDev m =
           calculateStandardDeviation calcStdDev
             (calculateReturns (drop (length prices - (nat L + 1)) prices))"
    using slice_from_last [OF assms(2), of prices] by (simp add: m)
  have 4: "calculateReturns (drop (length prices - (nat L + 1)) prices) =
           map (\<lambda>i. calculateTrailingReturn (prices ! Suc i) (prices ! i))
               [length prices - (nat L + 1)..<length prices - 1]"
    by (rule calculateReturns_drop_eq) simp
  have 5: "length (calculateReturns (drop (length prices - (nat L + 1)) prices)) = nat L"
    using len assms(2) by (simp add: calculateReturns_length)
  from 1 2 3 4 5 show ?thesis by blast
qed

theorem calculateSharpeForPeriod_metrics_witness:
  "calculateSharpeForPeriod (\<lambda>values. Some (Num 7)) [Num 100, Num 100, Num 110, Num 121] 2 =
     Some \<lparr>sharpeRatio = Num 3, trailingReturn = Num 21, stdDev = Num 7, periodDays = 2\<rparr>
   \<and> (0::int) \<le> 2
   \<and> Num 21 = calculateTrailingReturn (Num 121) (Num 100)
   \<and> Num 7 = calculateStandardDeviation (\<lambda>values. Some (Num 7)) [Num 10, Num 10]
   \<and> calculateReturns [Num 100, Num 110, Num 121] = [Num 10, Num 10]"
proof -
  have h: "calculateSharpeForPeriod (\<lambda>values. Some (Num 7)) [Num 100, Num 100, Num 110, Num 121] 2 =
     Some \<lparr>sharpeRatio = Num 3, trailingReturn = Num 21, stdDev = Num 7, periodDays = 2\<rparr>"
    by (simp add: calculateSharpeForPeriod_def calculateSharpeRatio_def
        calculateStandardDeviation_def calculateTrailingReturn_def element_at_def
        slice_from_def relativeIndex_def)
  have z: "(0::int) \<le> 2" by simp
  from calculateSharpeForPeriod_metrics [OF h z] h show ?thesis
    by (simp add: element_at_def calculateTrailingReturn_def)
qed

text \<open>
  Claim C3. \<open>calculateSharpeRatio\<close> is total. With a standard deviation of 0 it
  returns exactly 0, whatever the other two arguments are (also \<open>NaN\<close>), so that case
  yields neither a division by zero nor \<open>NaN\<close>. Otherwise it returns
  \<open>(trailingReturn - riskFreeRate) / stdDev\<close>, where an omitted risk-free rate is 0.
\<close>

theorem calculateSharpeRatio_zero_stdDev:
  "calculateSharpeRatio t (Num 0) rf = Num 0
   \<and> (s \<noteq> 0 \<longrightarrow>
        calculateSharpeRatio (Num a) (Num s) (Some (Num r)) = Num ((a - r) / s)
      \<and> calculateSharpeRatio (Num a) (Num s) None = Num ((a - 0) / s))
   \<and> (\<not> num_strict_eq sd (Num 0) \<longrightarrow>
        calculateSharpeRatio t sd rf =
          num_divide (num_minus t (case rf of None \<Rightarrow> Num 0 | Some r' \<Rightarrow> r')) sd)"
  by (simp add: calculateSharpeRatio_def)

theorem calculateSharpeRatio_zero_stdDev_witness:
  "calculateSharpeRatio NaN (Num 0) (Some NaN) = Num 0
   \<and> (2::real) \<noteq> 0
   \<and> calculateSharpeRatio (Num 21) (Num 2) (Some (Num 1)) = Num 10
   \<and> calculateSharpeRatio (Num 21) (Num 2) None = Num (21 / 2)
   \<and> \<not> num_strict_eq NaN (Num 0)
   \<and> calculateSharpeRatio (Num 21) NaN None = NaN"
  using calculateSharpeRatio_zero_stdDev [of NaN "Some NaN" 2 21 1 NaN]
        calculateSharpeRatio_zero_stdDev [of "Num 21" None 2 21 1 NaN]
  by simp

section \<open>The annotated series\<close>

lemma enhanceWithSharpeMetrics_length:
  "length (enhanceWithSharpeMetrics calcStdDev points lookback) = length points"
  by (simp add: enhanceWithSharpeMetrics_def Let_def)

lemma enhanceWithSharpeMetrics_nth:
  assumes "i < length points"
  shows "enhanceWithSharpeMetrics calcStdDev points lookback ! i =
           (if int i < lookback * 2 - 1 then points ! i
            else case calculateSharpeForPeriod calcStdDev
                        (take (Suc i) (map close points)) lookback of
                   None \<Rightarrow> points ! i
                 | Some metrics \<Rightarrow>
                     (points ! i)\<lparr>sharpeRatio1Y := Some (sharpeRatio metrics),
                                           trailingReturn1Y := Some (trailingReturn metrics),
                                           stdDev1Y := Some (stdDev metrics)\<rparr>)"
  using assms by (simp add: enhanceWithSharpeMetrics_def Let_def slice_prefix)

text \<open>
  Claim C10. Inside \<open>enhanceWithSharpeMetrics\<close>, at every index
  \<open>i \<ge> 2 * lookback - 1\<close> of the series the prefix \<open>prices.slice(0, i + 1)\<close> has
  \<open>i + 1 \<ge> 2 * lookback\<close> prices, so the inner call of \<open>calculateSharpeForPeriod\<close>
  does not return \<open>null\<close> and the branch that copies the point when the metrics are
  \<open>null\<close> is never taken.
\<close>

theorem enhance_inner_call_not_null:
  assumes "1 \<le> lookback"
    and "i < length points"
    and "2 * lookback - 1 \<le> int i"
  shows "length (slice (map close points) 0 (int i + 1)) = i + 1
       \<and> 2 * lookback \<le> int (i + 1)
       \<and> calculateSharpeForPeriod calcStdDev
            (slice (map close points) 0 (int i + 1)) lookback \<noteq> None"
  using assms by (simp add: slice_prefix calculateSharpeForPeriod_def Let_def)

theorem enhance_inner_call_not_null_witness:
  "(1::int) \<le> 1
   \<and> (1::nat) < length
      [\<lparr>date = 1704067200000, close = Num 100, open_price = Num 99, high = Num 101,
        low = Num 98, volume = Num 1000, sharpeRatio1Y = None, trailingReturn1Y = None,
        stdDev1Y = None\<rparr>,
       \<lparr>date = 1704153600000, close = Num 110, open_price = Num 100, high = Num 111,
        low = Num 99, volume = Num 1200, sharpeRatio1Y = None, trailingReturn1Y = None,
        stdDev1Y = None\<rparr>]
   \<and> 2 * 1 - 1 \<le> int 1
   \<and> calculateSharpeForPeriod (\<lambda>values. None)
        (slice (map close
      [\<lparr>date = 1704067200000, close = Num 100, open_price = Num 99, high = Num 101,
        low = Num 98, volume = Num 1000, sharpeRatio1Y = None, trailingReturn1Y = None,
        stdDev1Y = None\<rparr>,
       \<lparr>date = 1704153600000, close = Num 110, open_price = Num 100, high = Num 111,
        low = Num 99, volume = Num 1200, sharpeRatio1Y = None, trailingReturn1Y = None,
        stdDev1Y = None\<rparr>]) 0 (int 1 + 1)) 1 \<noteq> None"
proof -
  have a: "(1::int) \<le> 1" and c: "2 * 1 - 1 \<le> int 1"
    by simp_all
  have b: "(1::nat) < length
      [\<lparr>date = 1704067200000, close = Num 100, open_price = Num 99, high = Num 101,
        low = Num 98, volume = Num 1000, sharpeRatio1Y = None, trailingReturn1Y = None,
        stdDev1Y = None\<rparr>,
       \<lparr>date = 1704153600000, close = Num 110, open_price = Num 100, high = Num 111,
        low = Num 99, volume = Num 1200, sharpeRatio1Y = None, trailingReturn1Y = None,
        stdDev1Y = None\<rparr>]"
    by simp
  from enhance_inner_call_not_null [OF a b c, of "\<lambda>values. None"] a b c show ?thesis
    by simp
qed

text \<open>
  Claim C4. \<open>enhanceWithSharpeMetrics\<close> returns a series of the same length. A point at
  an index \<open>i < 2 * L - 1\<close> is the input point, copied with nothing attached. A point
  at an index \<open>i \<ge> 2 * L - 1\<close> is the input point with its three metric fields set to
  the \<open>sharpeRatio\<close>, \<open>trailingReturn\<close> and \<open>stdDev\<close> that \<open>calculateSharpeForPeriod\<close>
  returns for the closing prices at the indices \<open>0, ..., i\<close> and the same lookback; no
  later price enters it.
\<close>

theorem enhanceWithSharpeMetrics_points:
  assumes "1 \<le> L"
  shows "length (enhanceWithSharpeMetrics calcStdDev points L) = length points
       \<and> (\<forall>i<length points.
            (int i < 2 * L - 1 \<longrightarrow>
               enhanceWithSharpeMetrics calcStdDev points L ! i = points ! i)
          \<and> (2 * L - 1 \<le> int i \<longrightarrow>
               (\<exists>m. calculateSharpeForPeriod calcStdDev
                        (take (Suc i) (map close points)) L = Some m
                  \<and> enhanceWithSharpeMetrics calcStdDev points L ! i =
                      (points ! i)\<lparr>sharpeRatio1Y := Some (sharpeRatio m),
                                    trailingReturn1Y := Some (trailingReturn m),
                                    stdDev1Y := Some (stdDev m)\<rparr>)))"
proof (intro conjI allI impI)
  show "length (enhanceWithSharpeMetrics calcStdDev points L) = length points"
    by (rule enhanceWithSharpeMetrics_length)
next
  fix i assume "i < length points" "int i < 2 * L - 1"
  then show "enhanceWithSharpeMetrics calcStdDev points L ! i = points ! i"
    by (simp add: enhanceWithSharpeMetrics_nth)
next
  fix i assume i: "i < length points" and ge: "2 * L - 1 \<le> int i"
  from i ge have "\<not> int (length (take (Suc i) (map close points))) < L * 2"
    by simp
  then obtain m where m: "calculateSharpeForPeriod calcStdDev
       (take (Suc i) (map close points)) L = Some m"
    by (auto simp: calculateSharpeForPeriod_def Let_def)
  with i ge show "\<exists>m. calculateSharpeForPeriod calcStdDev
                        (take (Suc i) (map close points)) L = Some m
                  \<and> enhanceWithSharpeMetrics calcStdDev points L ! i =
                      (points ! i)\<lparr>sharpeRatio1Y := Some (sharpeRatio m),
                                    trailingReturn1Y := Some (trailingReturn m),
                                    stdDev1Y := Some (stdDev m)\<rparr>"
    by (simp add: enhanceWithSharpeMetrics_nth)
qed

theorem enhanceWithSharpeMetrics_points_witness:
  "(1::int) \<le> 1
   \<and> enhanceWithSharpeMetrics (\<lambda>values. None)
      [\<lparr>date = 1704067200000, close = Num 100, open_price = Num 99, high = Num 101,
        low = Num 98, volume = Num 1000, sharpeRatio1Y = None, trailingReturn1Y = None,
        stdDev1Y = None\<rparr>,
       \<lparr>date = 1704153600000, close = Num 110, open_price = Num 100, high = Num 111,
        low = Num 99, volume = Num 1200, sharpeRatio1Y = None, trailingReturn1Y = None,
        stdDev1Y = None\<rparr>] 1 =
      [\<lparr>date = 1704067200000, close = Num 100, open_price = Num 99, high = Num 101,
        low = Num 98, volume = Num 1000, sharpeRatio1Y = None, trailingReturn1Y = None,
        stdDev1Y = None\<rparr>,
       \<lparr>date = 1704153600000, close = Num 110, open_price = Num 100, high = Num 111,
        low = Num 99, volume = Num 1200, sharpeRatio1Y = None, trailingReturn1Y = None,
        stdDev1Y = None\<rparr>\<lparr>sharpeRatio1Y := Some (Num 0), trailingReturn1Y := Some (Num 10),
          stdDev1Y := Some (Num 0)\<rparr>]"
proof -
  have a: "(1::int) \<le> 1" by simp
  have m: "calculateSharpeForPeriod (\<lambda>values. None) [Num 100, Num 110] 1 =
      Some \<lparr>sharpeRatio = Num 0, trailingReturn = Num 10, stdDev = Num 0, periodDays = 1\<rparr>"
    by (simp add: calculateSharpeForPeriod_def calculateSharpeRatio_def
        calculateStandardDeviation_def calculateTrailingReturn_def element_at_def
        slice_from_def relativeIndex_def Let_def)
  note t = enhanceWithSharpeMetrics_points [OF a, of "\<lambda>values. None"
      "[\<lparr>date = 1704067200000, close = Num 100, open_price = Num 99, high = Num 101,
        low = Num 98, volume = Num 1000, sharpeRatio1Y = None, trailingReturn1Y = None,
        stdDev1Y = None\<rparr>,
       \<lparr>date = 1704153600000, close = Num 110, open_price = Num 100, high = Num 111,
        low = Num 99, volume = Num 1200, sharpeRatio1Y = None, trailingReturn1Y = None,
        stdDev1Y = None\<rparr>]"]
  from t have len: "length (enhanceWithSharpeMetrics (\<lambda>values. None)
      [\<lparr>date = 1704067200000, close = Num 100, open_price = Num 99, high = Num 101,
        low = Num 98, volume = Num 1000, sharpeRatio1Y = None, trailingReturn1Y = None,
        stdDev1Y = None\<rparr>,
       \<lparr>date = 1704153600000, close = Num 110, open_price = Num 100, high = Num 111,
        low = Num 99, volume = Num 1200, sharpeRatio1Y = None, trailingReturn1Y = None,
        stdDev1Y = None\<rparr>] 1) = 2"
    by simp
  have z: "enhanceWithSharpeMetrics (\<lambda>values. None)
      [\<lparr>date = 1704067200000, close = Num 100, open_price = Num 99, high = Num 101,
        low = Num 98, volume = Num 1000, sharpeRatio1Y = None, trailingReturn1Y = None,
        stdDev1Y = None\<rparr>,
       \<lparr>date = 1704153600000, close = Num 110, open_price = Num 100, high = Num 111,
        low = Num 99, volume = Num 1200, sharpeRatio1Y = None, trailingReturn1Y = None,
        stdDev1Y = None\<rparr>] 1 ! 0 = \<lparr>date = 1704067200000, close = Num 100, open_price = Num 99, high = Num 101,
        low = Num 98, volume = Num 1000, sharpeRatio1Y = None, trailingReturn1Y = None,
        stdDev1Y = None\<rparr>"
    using t [THEN conjunct2, rule_format, where i = 0, THEN conjunct1, rule_format]
    by simp
  obtain m' where m': "calculateSharpeForPeriod (\<lambda>values. None)
        (take (Suc 1) (map close
      [\<lparr>date = 1704067200000, close = Num 100, open_price = Num 99, high = Num 101,
        low = Num 98, volume = Num 1000, sharpeRatio1Y = None, trailingReturn1Y = None,
        stdDev1Y = None\<rparr>,
       \<lparr>date = 1704153600000, close = Num 110, open_price = Num 100, high = Num 111,
        low = Num 99, volume = Num 1200, sharpeRatio1Y = None, trailingReturn1Y = None,
        stdDev1Y = None\<rparr>])) 1 = Some m'"
    and e: "enhanceWithSharpeMetrics (\<lambda>values. None)
      [\<lparr>date = 1704067200000, close = Num 100, open_price = Num 99, high = Num 101,
        low = Num 98, volume = Num 1000, sharpeRatio1Y = None, trailingReturn1Y = None,
        stdDev1Y = None\<rparr>,
       \<lparr>date = 1704153600000, close = Num 110, open_price = Num 100, high = Num 111,
        low = Num 99, volume = Num 1200, sharpeRatio1Y = None, trailingReturn1Y = None,
        stdDev1Y = None\<rparr>] 1 ! 1 =
      ([\<lparr>date = 1704067200000, close = Num 100, open_price = Num 99, high = Num 101,
        low = Num 98, volume = Num 1000, sharpeRatio1Y = None, trailingReturn1Y = None,
        stdDev1Y = None\<rparr>,
       \<lparr>date = 1704153600000, close = Num 110, open_price = Num 100, high = Num 111,
        low = Num 99, volume = Num 1200, sharpeRatio1Y = None, trailingReturn1Y = None,
        stdDev1Y = None\<rparr>] ! 1)\<lparr>sharpeRatio1Y := Some (sharpeRatio m'),
           trailingReturn1Y := Some (trailingReturn m'), stdDev1Y := Some (stdDev m')\<rparr>"
    using t [THEN conjunct2, rule_format, where i = 1, THEN conjunct2, rule_format]
    by auto
  from m' m have "m' = \<lparr>sharpeRatio = Num 0, trailingReturn = Num 10, stdDev = Num 0, periodDays = 1\<rparr>"
    by simp
  with e have o: "enhanceWithSharpeMetrics (\<lambda>values. None)
      [\<lparr>date = 1704067200000, close = Num 100, open_price = Num 99, high = Num 101,
        low = Num 98, volume = Num 1000, sharpeRatio1Y = None, trailingReturn1Y = None,
        stdDev1Y = None\<rparr>,
       \<lparr>date = 1704153600000, close = Num 110, open_price = Num 100, high = Num 111,
        low = Num 99, volume = Num 1200, sharpeRatio1Y = None, trailingReturn1Y = None,
        stdDev1Y = None\<rparr>] 1 ! 1 = \<lparr>date = 1704153600000, close = Num 110, open_price = Num 100, high = Num 111,
        low = Num 99, volume = Num 1200, sharpeRatio1Y = None, trailingReturn1Y = None,
        stdDev1Y = None\<rparr>\<lparr>sharpeRatio1Y := Some (Num 0), trailingReturn1Y := Some (Num 10),
          stdDev1Y := Some (Num 0)\<rparr>"
    by simp
  from len z o a show ?thesis
    by (auto simp: list_eq_iff_nth_eq less_Suc_eq numeral_2_eq_2)
qed

section \<open>The multi-period report\<close>

text \<open>
  Claim C5. \<open>calculateMultiPeriodSharpe\<close> fills its six slots with
  \<open>calculateSharpeForPeriod\<close> at the lookbacks 1, 5, 21, 63, 125 and 250, the
  \<open>yesterday\<close> slot behind the test \<open>prices.length >= 2\<close>. Each slot depends on the
  prices and on its own lookback only, and is \<open>null\<close> exactly when the series has fewer
  than 2, 10, 42, 126, 250 and 500 prices respectively.
\<close>

theorem calculateMultiPeriodSharpe_slots:
  "SharpeRatioData.ticker (calculateMultiPeriodSharpe calcStdDev prices t) = t
   \<and> yesterday (calculateMultiPeriodSharpe calcStdDev prices t) =
       (if 2 \<le> length prices then calculateSharpeForPeriod calcStdDev prices 1 else None)
   \<and> yesterday (calculateMultiPeriodSharpe calcStdDev prices t) =
       calculateSharpeForPeriod calcStdDev prices 1
   \<and> lastWeek (calculateMultiPeriodSharpe calcStdDev prices t) =
       calculateSharpeForPeriod calcStdDev prices 5
   \<and> lastMonth (calculateMultiPeriodSharpe calcStdDev prices t) =
       calculateSharpeForPeriod calcStdDev prices 21
   \<and> lastQuarter (calculateMultiPeriodSharpe calcStdDev prices t) =
       calculateSharpeForPeriod calcStdDev prices 63
   \<and> lastSemester (calculateMultiPeriodSharpe calcStdDev prices t) =
       calculateSharpeForPeriod calcStdDev prices 125
   \<and> lastYear (calculateMultiPeriodSharpe calcStdDev prices t) =
       calculateSharpeForPeriod calcStdDev prices 250
   \<and> (yesterday (calculateMultiPeriodSharpe calcStdDev prices t) = None
        \<longleftrightarrow> length prices < 2)
   \<and> (lastWeek (calculateMultiPeriodSharpe calcStdDev prices t) = None
        \<longleftrightarrow> length prices < 10)
   \<and> (lastMonth (calculateMultiPeriodSharpe calcStdDev prices t) = None
        \<longleftrightarrow> length prices < 42)
   \<and> (lastQuarter (calculateMultiPeriodSharpe calcStdDev prices t) = None
        \<longleftrightarrow> length prices < 126)
   \<and> (lastSemester (calculateMultiPeriodSharpe calcStdDev prices t) = None
        \<longleftrightarrow> length prices < 250)
   \<and> (lastYear (calculateMultiPeriodSharpe calcStdDev prices t) = None
        \<longleftrightarrow> length prices < 500)"
  by (simp add: calculateMultiPeriodSharpe_def calculateSharpeForPeriod_def Let_def
      TRADING_DAYS_WEEK_def TRADING_DAYS_MONTH_def TRADING_DAYS_QUARTER_def
      TRADING_DAYS_SEMESTER_def TRADING_DAYS_YEAR_def)

theorem calculateMultiPeriodSharpe_slots_witness:
  "yesterday (calculateMultiPeriodSharpe (\<lambda>values. None) (replicate 10 (Num 100)) ''SPY'') \<noteq> None
   \<and> lastWeek (calculateMultiPeriodSharpe (\<lambda>values. None) (replicate 10 (Num 100)) ''SPY'') \<noteq> None
   \<and> lastMonth (calculateMultiPeriodSharpe (\<lambda>values. None) (replicate 10 (Num 100)) ''SPY'') = None
   \<and> lastYear (calculateMultiPeriodSharpe (\<lambda>values. None) (replicate 10 (Num 100)) ''SPY'') = None"
proof -
  note t = calculateMultiPeriodSharpe_slots
      [of "\<lambda>values. None" "replicate 10 (Num 100)" "''SPY''"]
  have y: "(yesterday (calculateMultiPeriodSharpe (\<lambda>values. None) (replicate 10 (Num 100)) ''SPY'') = None)
      = (length (replicate 10 (Num 100)) < 2)"
    using t by blast
  have w: "(lastWeek (calculateMultiPeriodSharpe (\<lambda>values. None) (replicate 10 (Num 100)) ''SPY'') = None)
      = (length (replicate 10 (Num 100)) < 10)"
    using t by blast
  have m: "(lastMonth (calculateMultiPeriodSharpe (\<lambda>values. None) (replicate 10 (Num 100)) ''SPY'') = None)
      = (length (replicate 10 (Num 100)) < 42)"
    using t by blast
  have yr: "(lastYear (calculateMultiPeriodSharpe (\<lambda>values. None) (replicate 10 (Num 100)) ''SPY'') = None)
      = (length (replicate 10 (Num 100)) < 500)"
    using t by blast
  from y w m yr show ?thesis by simp
qed

section \<open>The order of the fetched series\<close>

lemma insert_by_insort_key:
  assumes "\<And>a b. (compare a b \<le> 0) = (f a \<le> f b)"
  shows "insert_by compare x ys = insort_key f x ys"
  by (induction ys) (simp_all add: assms)

lemma sort_by_sort_key:
  assumes "\<And>a b. (compare a b \<le> 0) = (f a \<le> (f b :: int))"
  shows "sort_by compare xs = sort_key f xs"
proof -
  have "insert_by compare = insort_key f"
    by (intro ext) (rule insert_by_insort_key [OF assms])
  then show ?thesis by (simp add: sort_by_def sort_key_def)
qed

lemma sortChronological_sort_key: "sortChronological xs = sort_key date xs"
  unfolding sortChronological_def by (rule sort_by_sort_key) simp

lemma sortReverseChronological_sort_key:
  "sortReverseChronological xs = sort_key (\<lambda>p. - date p) xs"
  unfolding sortReverseChronological_def by (rule sort_by_sort_key) simp

lemma isChronological_sorted: "isChronological xs = sorted (map date xs)"
  by (induction xs rule: isChronological.induct) auto

lemma sorted_sortChronological: "sorted (map date (sortChronological xs))"
  by (simp add: sortChronological_sort_key)

lemma mset_sortChronological: "mset (sortChronological xs) = mset xs"
  by (simp add: sortChronological_sort_key)

lemma newest_first_sortReverseChronological:
  "sorted_wrt (\<lambda>a b. date b \<le> date a) (sortReverseChronological xs)"
proof -
  have "sorted (map (\<lambda>p. - date p) (sort_key (\<lambda>p. - date p) xs))"
    by (rule sorted_sort_key)
  then show ?thesis
    by (simp add: sortReverseChronological_sort_key sorted_map)
qed

lemma mset_sortReverseChronological: "mset (sortReverseChronological xs) = mset xs"
  by (simp add: sortReverseChronological_sort_key)

lemma stockPrices_copy:
  "map (\<lambda>d. \<lparr>date = date d, close = close d, open_price = open_price d, high = high d,
               low = low d, volume = volume d\<rparr>) fetched = (fetched :: StockPrice list)"
  by (rule map_idI) simp

lemma fetchSingleStock_historicalData:
  "historicalData (fetchSingleStock t fetched) =
     sortReverseChronological (filterValidPrices fetched)"
proof (cases "length fetched = 0")
  case True
  then show ?thesis
    by (simp add: fetchSingleStock_def filterValidPrices_def sortReverseChronological_def
        sort_by_def)
next
  case False
  then show ?thesis
    by (simp add: fetchSingleStock_def Let_def stockPrices_copy)
qed

text \<open>
  Claim C8 says that the series \<open>fetchSingleStock\<close> produces is in chronological order.
  It is not: for two valid bars fetched oldest first, the result has the newer bar first,
  and the repository's own check \<open>isChronological\<close> rejects it.
\<close>

theorem fetchSingleStock_not_chronological:
  "historicalData (fetchSingleStock ''AAPL''
      [\<lparr>date = 1704067200000, close = Num 100, open_price = Num 99, high = Num 101,
        low = Num 98, volume = Num 1000\<rparr>,
       \<lparr>date = 1704153600000, close = Num 110, open_price = Num 100, high = Num 111,
        low = Num 99, volume = Num 1200\<rparr>]) =
      [\<lparr>date = 1704153600000, close = Num 110, open_price = Num 100, high = Num 111,
        low = Num 99, volume = Num 1200\<rparr>,
       \<lparr>date = 1704067200000, close = Num 100, open_price = Num 99, high = Num 101,
        low = Num 98, volume = Num 1000\<rparr>]
   \<and> \<not> isChronological (historicalData (fetchSingleStock ''AAPL''
      [\<lparr>date = 1704067200000, close = Num 100, open_price = Num 99, high = Num 101,
        low = Num 98, volume = Num 1000\<rparr>,
       \<lparr>date = 1704153600000, close = Num 110, open_price = Num 100, high = Num 111,
        low = Num 99, volume = Num 1200\<rparr>]))"
  by (simp add: fetchSingleStock_def Let_def filterValidPrices_def
      sortReverseChronological_def sort_by_def)

text \<open>
  Claim C8, amended. The series \<open>fetchSingleStock\<close> produces holds exactly the valid
  bars, newest first: it is non-increasing by date, as \<open>sortReverseChronological\<close> leaves
  it. The cron handler puts it in chronological order with \<open>sortChronological\<close> before it
  extracts the closing prices for \<open>calculateMultiPeriodSharpe\<close>; that series holds the
  same bars and is non-decreasing by date.
\<close>

theorem fetchSingleStock_newest_first:
  "sorted_wrt (\<lambda>a b. date b \<le> date a) (historicalData (fetchSingleStock t fetched))
   \<and> mset (historicalData (fetchSingleStock t fetched)) = mset (filterValidPrices fetched)
   \<and> daysCount (fetchSingleStock t fetched) = length (filterValidPrices fetched)
   \<and> isChronological (chronologicalData (fetchSingleStock t fetched))
   \<and> sorted (map date (chronologicalData (fetchSingleStock t fetched)))
   \<and> mset (chronologicalData (fetchSingleStock t fetched)) = mset (filterValidPrices fetched)"
proof -
  have d: "daysCount (fetchSingleStock t fetched) = length (historicalData (fetchSingleStock t fetched))"
    by (simp add: fetchSingleStock_def Let_def)
  have "length (historicalData (fetchSingleStock t fetched)) = length (filterValidPrices fetched)"
    by (simp add: fetchSingleStock_historicalData sortReverseChronological_sort_key)
  with d show ?thesis
    by (simp add: fetchSingleStock_historicalData chronologicalData_def
        newest_first_sortReverseChronological mset_sortReverseChronological
        isChronological_sorted sorted_sortChronological mset_sortChronological)
qed

section \<open>Validation of the lookback\<close>

text \<open>
  Claim C9 says that \<open>validateLookback\<close> accepts integers only and never changes an input
  into another accepted value. It accepts 1.5 and returns 1 as the validated lookback.
\<close>

theorem validateLookback_fraction:
  "(3 / 2 :: real) \<notin> \<int>
   \<and> validateLookback (JSNumber (Num (3 / 2))) =
     \<lparr>valid = True, data = Some (Num 1), ValidationResult.error = None\<rparr>"
proof -
  have "frac (3 / 2 :: real) \<noteq> 0" by (simp add: frac_def)
  then have "(3 / 2 :: real) \<notin> \<int>" by simp
  then show ?thesis
    by (simp add: validateLookback_def LOOKBACK_MIN_def LOOKBACK_MAX_def)
qed

text \<open>
  Claim C9, amended. \<open>validateLookback\<close> accepts exactly the numbers \<open>x\<close>, integer or
  not, with \<open>1 \<le> x \<le> 1000\<close>, and returns \<open>Math.floor(x)\<close> as the validated lookback,
  an integer between 1 and 1000; an accepted integer is returned unchanged. For every
  other input (a number below 1 or above 1000, \<open>NaN\<close>, a value that is not a number) it
  returns a validation error and no lookback: an out-of-range input is never clamped
  into the range.
\<close>

theorem validateLookback_range:
  "(valid (validateLookback v) \<longleftrightarrow> (\<exists>x. v = JSNumber (Num x) \<and> 1 \<le> x \<and> x \<le> 1000))
   \<and> (1 \<le> x \<and> x \<le> 1000 \<longrightarrow>
        validateLookback (JSNumber (Num x)) =
          \<lparr>valid = True, data = Some (Num (of_int \<lfloor>x\<rfloor>)), ValidationResult.error = None\<rparr>
      \<and> 1 \<le> \<lfloor>x\<rfloor> \<and> \<lfloor>x\<rfloor> \<le> 1000)
   \<and> (1 \<le> n \<and> n \<le> 1000 \<longrightarrow>
        validateLookback (JSNumber (Num (of_int n))) =
          \<lparr>valid = True, data = Some (Num (of_int n)), ValidationResult.error = None\<rparr>)
   \<and> (\<not> valid (validateLookback v) \<longrightarrow>
        data (validateLookback v) = None \<and> ValidationResult.error (validateLookback v) \<noteq> None)"
proof -
  have 1: "valid (validateLookback v) \<longleftrightarrow> (\<exists>x. v = JSNumber (Num x) \<and> 1 \<le> x \<and> x \<le> 1000)"
  proof (cases v)
    case (JSNumber k)
    then show ?thesis
      by (cases k) (auto simp: validateLookback_def LOOKBACK_MIN_def LOOKBACK_MAX_def)
  next
    case JSOther
    then show ?thesis by (simp add: validateLookback_def)
  qed
  have 2: "1 \<le> x \<and> x \<le> 1000 \<longrightarrow>
        validateLookback (JSNumber (Num x)) =
          \<lparr>valid = True, data = Some (Num (of_int \<lfloor>x\<rfloor>)), ValidationResult.error = None\<rparr>
      \<and> 1 \<le> \<lfloor>x\<rfloor> \<and> \<lfloor>x\<rfloor> \<le> 1000"
    by (auto simp: validateLookback_def LOOKBACK_MIN_def LOOKBACK_MAX_def le_floor_iff floor_le_iff)
  have 3: "1 \<le> n \<and> n \<le> 1000 \<longrightarrow>
        validateLookback (JSNumber (Num (of_int n))) =
          \<lparr>valid = True, data = Some (Num (of_int n)), ValidationResult.error = None\<rparr>"
    by (auto simp: validateLookback_def LOOKBACK_MIN_def LOOKBACK_MAX_def)
  have 4: "\<not> valid (validateLookback v) \<longrightarrow>
        data (validateLookback v) = None \<and> ValidationResult.error (validateLookback v) \<noteq> None"
  proof (cases v)
    case (JSNumber k)
    then show ?thesis
      by (cases k) (auto simp: validateLookback_def LOOKBACK_MIN_def LOOKBACK_MAX_def)
  next
    case JSOther
    then show ?thesis by (simp add: validateLookback_def)
  qed
  from 1 2 3 4 show ?thesis by blast
qed

theorem validateLookback_range_witness:
  "valid (validateLookback (JSNumber (Num 250)))
   \<and> (1::real) \<le> 1999 / 2 \<and> (1999 / 2 :: real) \<le> 1000
   \<and> validateLookback (JSNumber (Num (1999 / 2))) =
       \<lparr>valid = True, data = Some (Num 999), ValidationResult.error = None\<rparr>
   \<and> (1::int) \<le> 250 \<and> (250::int) \<le> 1000
   \<and> validateLookback (JSNumber (Num 250)) =
       \<lparr>valid = True, data = Some (Num 250), ValidationResult.error = None\<rparr>
   \<and> \<not> valid (validateLookback (JSNumber (Num 1001)))
   \<and> data (validateLookback (JSNumber (Num 1001))) = None
   \<and> ValidationResult.error (validateLookback (JSNumber (Num 1001))) \<noteq> None
   \<and> \<not> valid (validateLookback JSOther)
   \<and> \<not> valid (validateLookback (JSNumber NaN))"
  using validateLookback_range [of "JSNumber (Num 250)" "1999 / 2" 250]
        validateLookback_range [of "JSNumber (Num 1001)" "1999 / 2" 250]
        validateLookback_range [of "JSOther" "1999 / 2" 250]
        validateLookback_range [of "JSNumber NaN" "1999 / 2" 250]
  by simp

end
